theory Spec2Isabelle
  imports Main
begin

section \<open>Domain model (src/models.py)\<close>

datatype EmailUrgency = HIGH | MEDIUM | LOW

datatype EmailIntent =
    MEETING_REQUEST
  | SUPPORT_QUESTION
  | INFORMATION_REQUEST
  | SPAM
  | NEWSLETTER
  | URGENT_BUSINESS
  | FOLLOW_UP

text \<open>The \<open>.value\<close> of the two string enums.\<close>

fun urgency_value :: "EmailUrgency \<Rightarrow> string" where
  "urgency_value HIGH = ''high''"
| "urgency_value MEDIUM = ''medium''"
| "urgency_value LOW = ''low''"

fun intent_value :: "EmailIntent \<Rightarrow> string" where
  "intent_value MEETING_REQUEST = ''meeting_request''"
| "intent_value SUPPORT_QUESTION = ''support_question''"
| "intent_value INFORMATION_REQUEST = ''information_request''"
| "intent_value SPAM = ''spam''"
| "intent_value NEWSLETTER = ''newsletter''"
| "intent_value URGENT_BUSINESS = ''urgent_business''"
| "intent_value FOLLOW_UP = ''follow_up''"

text \<open>
  A naive \<open>datetime\<close>. The calendar date is kept as its proleptic Gregorian ordinal
  (\<open>date.toordinal()\<close>: day 1 is 0001-01-01, day 3652059 is 9999-12-31), which is the
  representation Python's own date arithmetic goes through; the time of day is kept field by
  field.
\<close>

record datetime =
  ordinal :: int
  hour :: nat
  minute :: nat
  second :: nat
  microsecond :: nat

record EmailClassification =
  intent :: EmailIntent
  urgency :: EmailUrgency
  requires_response :: bool
  reasoning :: string

record EmailData =
  sender :: string
  sender_title :: "string option"
  sender_company :: "string option"
  subject :: string
  content :: string
  received_at :: datetime
  thread_id :: "string option"

record CalendarSlot =
  start_time :: datetime
  end_time :: datetime
  duration_minutes :: int

text \<open>
  \<open>ResponseDraft\<close> has a \<open>subject\<close> and a \<open>content\<close> of its own; its fields carry the
  prefix \<open>draft_\<close> to keep them apart from those of \<open>EmailData\<close>.
\<close>

record ResponseDraft =
  draft_subject :: string
  draft_content :: string
  tone :: string
  includes_meeting_times :: bool
  proposed_times :: "CalendarSlot list"

text \<open>
  The constructor call \<open>ResponseDraft(subject=..., content=..., tone=...)\<close>, with the two
  defaulted fields of the class.
\<close>

definition ResponseDraft_init :: "string \<Rightarrow> string \<Rightarrow> string \<Rightarrow> ResponseDraft" where
  "ResponseDraft_init s c t =
     \<lparr>draft_subject = s, draft_content = c, tone = t,
      includes_meeting_times = False, proposed_times = []\<rparr>"

section \<open>Exceptions\<close>

text \<open>
  The exceptions that can leave a function of the program. A failure of the language model or
  of an output parser is an \<open>Exception\<close> whose \<open>str\<close> is the carried text.
\<close>

datatype exn = OverflowError | AttributeError | KeyError

section \<open>Date arithmetic (the part of Python's datetime the program uses)\<close>

definition MINORDINAL :: int where "MINORDINAL = 1"
definition MAXORDINAL :: int where "MAXORDINAL = 3652059"

text \<open>\<open>timedelta(days=d)\<close>: a number of days, of magnitude at most 999999999.\<close>

definition timedelta_days :: "int \<Rightarrow> exn + int" where
  "timedelta_days d = (if \<bar>d\<bar> > 999999999 then Inl OverflowError else Inr d)"

text \<open>\<open>dt + delta\<close> for a whole number of days: the date moves, the time of day stays.\<close>

definition datetime_add :: "datetime \<Rightarrow> int \<Rightarrow> exn + datetime" where
  "datetime_add dt d =
     (if MINORDINAL \<le> ordinal dt + d \<and> ordinal dt + d \<le> MAXORDINAL
      then Inr (dt\<lparr>ordinal := ordinal dt + d\<rparr>)
      else Inl OverflowError)"

text \<open>\<open>dt.replace(hour=h, minute=0, second=0, microsecond=0)\<close>.\<close>

definition replace_time :: "datetime \<Rightarrow> nat \<Rightarrow> nat \<Rightarrow> nat \<Rightarrow> nat \<Rightarrow> datetime" where
  "replace_time dt h m s us = dt\<lparr>hour := h, minute := m, second := s, microsecond := us\<rparr>"

text \<open>The position of a datetime on the time line, in microseconds.\<close>

definition to_micro :: "datetime \<Rightarrow> int" where
  "to_micro dt =
     (((ordinal dt * 24 + int (hour dt)) * 60 + int (minute dt)) * 60 + int (second dt)) * 1000000
       + int (microsecond dt)"

text \<open>A datetime as the clock can return it.\<close>

definition valid_datetime :: "datetime \<Rightarrow> bool" where
  "valid_datetime dt \<longleftrightarrow>
     MINORDINAL \<le> ordinal dt \<and> ordinal dt \<le> MAXORDINAL \<and>
     hour dt < 24 \<and> minute dt < 60 \<and> second dt < 60 \<and> microsecond dt < 1000000"

section \<open>Mock services (src/services/mock\_services.py)\<close>

text \<open>A sender context is a \<open>dict\<close> of strings, kept as an association list.\<close>

type_synonym context_dict = "(string \<times> string) list"

definition mock_contacts :: "(string \<times> context_dict) list" where
  "mock_contacts =
     [(''ceo@company.com'',
        [(''name'', ''CEO''),
         (''title'', ''Chief Executive Officer''),
         (''company'', ''Important Corp''),
         (''importance'', ''high''),
         (''relationship'', ''key_stakeholder'')]),
      (''support@customer.com'',
        [(''name'', ''Support Team''),
         (''title'', ''Customer Support''),
         (''company'', ''Customer Corp''),
         (''importance'', ''medium''),
         (''relationship'', ''customer'')])]"

text \<open>\<open>d.get(k, default)\<close>.\<close>

definition dict_get :: "('k \<times> 'v) list \<Rightarrow> 'k \<Rightarrow> 'v \<Rightarrow> 'v" where
  "dict_get d k dflt = (case map_of d k of Some v \<Rightarrow> v | None \<Rightarrow> dflt)"

definition get_sender_context :: "string \<Rightarrow> context_dict" where
  "get_sender_context email_address =
     dict_get mock_contacts email_address
       [(''name'', email_address), (''importance'', ''medium''), (''relationship'', ''unknown'')]"

text \<open>The two slots \<open>get_availability\<close> makes for one date: 09:00-10:00 and 14:00-15:00.\<close>

definition day_slots :: "datetime \<Rightarrow> CalendarSlot list" where
  "day_slots date =
     [\<lparr>start_time = replace_time date 9 0 0 0,
       end_time = replace_time date 10 0 0 0,
       duration_minutes = 60\<rparr>,
      \<lparr>start_time = replace_time date 14 0 0 0,
       end_time = replace_time date 15 0 0 0,
       duration_minutes = 60\<rparr>]"

text \<open>
  The loop \<open>for day in range(1, days_ahead + 1)\<close> over the remaining days, with the list
  \<open>slots\<close> built so far. An exception of the date arithmetic ends the loop.
\<close>

fun availability_loop :: "datetime \<Rightarrow> int list \<Rightarrow> CalendarSlot list \<Rightarrow> exn + CalendarSlot list" where
  "availability_loop now [] slots = Inr slots"
| "availability_loop now (day # days) slots =
     (case timedelta_days day of
        Inl e \<Rightarrow> Inl e
      | Inr delta \<Rightarrow>
          (case datetime_add now delta of
             Inl e \<Rightarrow> Inl e
           | Inr date \<Rightarrow> availability_loop now days (slots @ day_slots date)))"

text \<open>\<open>get_availability\<close>, with the reading \<open>now\<close> of the clock made a parameter.\<close>

definition get_availability :: "datetime \<Rightarrow> int \<Rightarrow> exn + CalendarSlot list" where
  "get_availability now days_ahead =
     (case availability_loop now [1..days_ahead] [] of
        Inl e \<Rightarrow> Inl e
      | Inr slots \<Rightarrow> Inr (take 5 slots))"

section \<open>Workflow state (src/state.py)\<close>

text \<open>
  The state is the \<open>TypedDict\<close> of src/state.py; a key that is absent and a key that holds
  \<open>None\<close> are both \<open>None\<close> here. The audit log \<open>messages\<close> is kept as the stages write
  it, by appending. What the stages print to the console is no part of the state and is left
  out.
\<close>

datatype message = HumanMessage string | AIMessage string

record EmailAgentState =
  email :: EmailData
  sender_context :: "context_dict option"
  classification :: "EmailClassification option"
  calendar_availability :: "CalendarSlot list option"
  response_draft :: "ResponseDraft option"
  final_response :: "string option"
  should_send :: bool
  messages :: "message list"
  error :: "string option"

section \<open>Collaborators of the agent\<close>

text \<open>
  What the two prompt templates of src/prompts.py are filled with. The fixed text of a template
  and the format instructions of its parser are the same in every call, so a formatted prompt
  is given by its template and the arguments of \<open>format_messages\<close>, in the order of the call.
\<close>

datatype prompt =
    CLASSIFICATION_PROMPT string string string string string string string
  | RESPONSE_PROMPT string string string string string string string string

text \<open>
  The parts of the run that are not code of the program: the language model
  (\<open>self.llm.invoke\<close>, returning the content of its response), the two output parsers,
  \<open>strftime\<close> and the clock read by \<open>datetime.now()\<close>. A model call or a parse that raises
  returns \<open>Inl\<close> of the exception's text.
\<close>

record collaborators =
  llm_invoke :: "prompt \<Rightarrow> string + string"
  classification_parse :: "string \<Rightarrow> string + EmailClassification"
  response_parse :: "string \<Rightarrow> string + ResponseDraft"
  strftime :: "datetime \<Rightarrow> string \<Rightarrow> string"
  clock :: datetime

section \<open>Small library functions\<close>

definition digit_char :: "nat \<Rightarrow> char" where
  "digit_char d = char_of (48 + d)"

text \<open>\<open>str(n)\<close> of a natural number.\<close>

function str_nat :: "nat \<Rightarrow> string" where
  "str_nat n = (if n < 10 then [digit_char n] else str_nat (n div 10) @ [digit_char (n mod 10)])"
  by pat_completeness auto
termination
  by (relation "measure id") auto

text \<open>\<open>sep.join(xs)\<close>.\<close>

fun join :: "string \<Rightarrow> string list \<Rightarrow> string" where
  "join sep [] = []"
| "join sep [x] = x"
| "join sep (x # y # ys) = x @ sep @ join sep (y # ys)"

section \<open>Stages of the workflow (src/agent.py)\<close>

definition enrich_sender_context :: "EmailAgentState \<Rightarrow> exn + EmailAgentState" where
  "enrich_sender_context state =
     (let em = email state;
          ctx = get_sender_context (sender em)
      in Inr (state\<lparr>sender_context := Some ctx,
                    messages := messages state @
                      [HumanMessage (''Enriched sender context for '' @ sender em)]\<rparr>))"

text \<open>The fallback of the classify stage.\<close>

definition default_classification :: EmailClassification where
  "default_classification =
     \<lparr>intent = INFORMATION_REQUEST, urgency = MEDIUM, requires_response = True,
      reasoning = ''Failed to classify, using default''\<rparr>"

text \<open>The two calls inside the \<open>try\<close> of the classify stage.\<close>

definition invoke_classification :: "collaborators \<Rightarrow> prompt \<Rightarrow> string + EmailClassification" where
  "invoke_classification env formatted_prompt =
     (case llm_invoke env formatted_prompt of
        Inl e \<Rightarrow> Inl e
      | Inr response \<Rightarrow> classification_parse env response)"

text \<open>The \<open>format_messages\<close> call of the classify stage.\<close>

definition classification_prompt :: "EmailData \<Rightarrow> context_dict \<Rightarrow> prompt" where
  "classification_prompt em ctx =
     CLASSIFICATION_PROMPT (sender em)
       (dict_get ctx ''title'' ''Unknown'')
       (dict_get ctx ''company'' ''Unknown'')
       (subject em) (content em)
       (dict_get ctx ''importance'' ''medium'')
       (dict_get ctx ''relationship'' ''unknown'')"

definition classify_email :: "collaborators \<Rightarrow> EmailAgentState \<Rightarrow> exn + EmailAgentState" where
  "classify_email env state =
     (let em = email state in
      case sender_context state of
        None \<Rightarrow> Inl AttributeError
      | Some ctx \<Rightarrow>
          (let formatted_prompt = classification_prompt em ctx
           in case invoke_classification env formatted_prompt of
                Inr c \<Rightarrow>
                  Inr (state\<lparr>classification := Some c,
                             messages := messages state @
                               [AIMessage (''Classified email: '' @ intent_value (intent c) @ '', ''
                                             @ urgency_value (urgency c))]\<rparr>)
              | Inl e \<Rightarrow>
                  Inr (state\<lparr>error := Some (''Classification failed: '' @ e),
                             classification := Some default_classification\<rparr>)))"

text \<open>The stage calls \<open>get_availability()\<close> with its default, \<open>days_ahead = 7\<close>.\<close>

definition check_calendar_availability :: "collaborators \<Rightarrow> EmailAgentState \<Rightarrow> exn + EmailAgentState" where
  "check_calendar_availability env state =
     (case classification state of
        None \<Rightarrow> Inl AttributeError
      | Some c \<Rightarrow>
          if intent c = MEETING_REQUEST then
            (case get_availability (clock env) 7 of
               Inl e \<Rightarrow> Inl e
             | Inr availability \<Rightarrow>
                 Inr (state\<lparr>calendar_availability := Some availability,
                            messages := messages state @
                              [HumanMessage (''Retrieved '' @ str_nat (length availability)
                                               @ '' available time slots'')]\<rparr>))
          else Inr state)"

text \<open>The text the drafting stage puts into its prompt for the slots found.\<close>

definition slot_line :: "collaborators \<Rightarrow> CalendarSlot \<Rightarrow> string" where
  "slot_line env slot =
     ''- '' @ strftime env (start_time slot) ''%A, %B %d at %I:%M %p'' @ '' - ''
        @ strftime env (end_time slot) ''%I:%M %p''"

definition availability_text :: "collaborators \<Rightarrow> CalendarSlot list option \<Rightarrow> string" where
  "availability_text env found =
     (case found of
        Some (s # ss) \<Rightarrow> join [CHR 0x0A] (map (slot_line env) (s # ss))
      | _ \<Rightarrow> ''No calendar check needed'')"

text \<open>The fallback of the drafting stage.\<close>

definition default_draft :: "EmailData \<Rightarrow> ResponseDraft" where
  "default_draft em =
     ResponseDraft_init (''Re: '' @ subject em)
       ''Thank you for your email. I'll review this and get back to you soon.''
       ''professional''"

definition invoke_response :: "collaborators \<Rightarrow> prompt \<Rightarrow> string + ResponseDraft" where
  "invoke_response env formatted_prompt =
     (case llm_invoke env formatted_prompt of
        Inl e \<Rightarrow> Inl e
      | Inr response \<Rightarrow> response_parse env response)"

text \<open>The \<open>format_messages\<close> call of the drafting stage.\<close>

definition response_prompt ::
  "EmailData \<Rightarrow> EmailClassification \<Rightarrow> context_dict \<Rightarrow> string \<Rightarrow> prompt" where
  "response_prompt em c ctx shown =
     RESPONSE_PROMPT (sender em) (subject em) (content em)
       (intent_value (intent c)) (urgency_value (urgency c))
       (dict_get ctx ''importance'' ''medium'')
       (dict_get ctx ''relationship'' ''unknown'')
       shown"

definition draft_response :: "collaborators \<Rightarrow> EmailAgentState \<Rightarrow> exn + EmailAgentState" where
  "draft_response env state =
     (let em = email state;
          shown = availability_text env (calendar_availability state)
      in case classification state of
           None \<Rightarrow> Inl AttributeError
         | Some c \<Rightarrow>
             (case sender_context state of
                None \<Rightarrow> Inl AttributeError
              | Some ctx \<Rightarrow>
                  (let formatted_prompt = response_prompt em c ctx shown
                   in case invoke_response env formatted_prompt of
                        Inr draft \<Rightarrow>
                          Inr (state\<lparr>response_draft := Some draft,
                                     messages := messages state @
                                       [AIMessage (''Drafted response with tone: '' @ tone draft)]\<rparr>)
                      | Inl e \<Rightarrow>
                          Inr (state\<lparr>error := Some (''Response drafting failed: '' @ e),
                                     response_draft := Some (default_draft em)\<rparr>))))"

definition human_review :: "EmailAgentState \<Rightarrow> exn + EmailAgentState" where
  "human_review state =
     (case response_draft state of
        None \<Rightarrow> Inl AttributeError
      | Some draft \<Rightarrow>
          Inr (state\<lparr>should_send := True,
                     final_response := Some (draft_content draft),
                     messages := messages state @
                       [HumanMessage ''Email draft presented for human review'']\<rparr>))"

definition send_email :: "EmailAgentState \<Rightarrow> exn + EmailAgentState" where
  "send_email state =
     Inr (state\<lparr>messages := messages state @ [AIMessage ''Email sent successfully'']\<rparr>)"

subsection \<open>Conditional edge functions\<close>

definition should_respond :: "EmailAgentState \<Rightarrow> exn + string" where
  "should_respond state =
     (case classification state of
        None \<Rightarrow> Inl AttributeError
      | Some c \<Rightarrow>
          if \<not> requires_response c then Inr ''ignore''
          else if intent c \<in> set [SPAM, NEWSLETTER] then Inr ''ignore''
          else Inr ''respond'')"

definition needs_calendar :: "EmailAgentState \<Rightarrow> exn + string" where
  "needs_calendar state =
     (case classification state of
        None \<Rightarrow> Inl AttributeError
      | Some c \<Rightarrow>
          if intent c = MEETING_REQUEST then Inr ''calendar_needed''
          else Inr ''no_calendar'')"

definition human_approval :: "EmailAgentState \<Rightarrow> exn + string" where
  "human_approval state = Inr (if should_send state then ''approved'' else ''rejected'')"

section \<open>The graph and its driver\<close>

datatype node =
    N_enrich_sender
  | N_classify_email
  | N_check_calendar
  | N_draft_response
  | N_human_review
  | N_send_email

text \<open>The stage registered under each node name by \<open>add_node\<close>.\<close>

fun run_node :: "collaborators \<Rightarrow> node \<Rightarrow> EmailAgentState \<Rightarrow> exn + EmailAgentState" where
  "run_node env N_enrich_sender state = enrich_sender_context state"
| "run_node env N_classify_email state = classify_email env state"
| "run_node env N_check_calendar state = check_calendar_availability env state"
| "run_node env N_draft_response state = draft_response env state"
| "run_node env N_human_review state = human_review state"
| "run_node env N_send_email state = send_email state"

text \<open>
  A conditional edge: the edge function gives a label, the table of the edge gives the
  destination of the label (\<open>None\<close> is \<open>END\<close>).
\<close>

definition conditional_edge ::
  "(EmailAgentState \<Rightarrow> exn + string) \<Rightarrow> (string \<times> node option) list \<Rightarrow> EmailAgentState
     \<Rightarrow> exn + node option" where
  "conditional_edge path table state =
     (case path state of
        Inl e \<Rightarrow> Inl e
      | Inr label \<Rightarrow>
          (case map_of table label of
             None \<Rightarrow> Inl KeyError
           | Some dest \<Rightarrow> Inr dest))"

text \<open>The edges of \<open>_build_graph\<close>.\<close>

fun next_node :: "node \<Rightarrow> EmailAgentState \<Rightarrow> exn + node option" where
  "next_node N_enrich_sender state = Inr (Some N_classify_email)"
| "next_node N_classify_email state =
     conditional_edge should_respond
       [(''respond'', Some N_check_calendar), (''ignore'', None)] state"
| "next_node N_check_calendar state =
     conditional_edge needs_calendar
       [(''calendar_needed'', Some N_draft_response), (''no_calendar'', Some N_draft_response)] state"
| "next_node N_draft_response state = Inr (Some N_human_review)"
| "next_node N_human_review state =
     conditional_edge human_approval
       [(''approved'', Some N_send_email), (''rejected'', None)] state"
| "next_node N_send_email state = Inr None"

text \<open>The position of a node in the graph; every edge leads to a later node.\<close>

fun rank :: "node \<Rightarrow> nat" where
  "rank N_enrich_sender = 0"
| "rank N_classify_email = 1"
| "rank N_check_calendar = 2"
| "rank N_draft_response = 3"
| "rank N_human_review = 4"
| "rank N_send_email = 5"

text \<open>
  The driver: run the stage of the current node, follow its edge, stop at \<open>END\<close>. Beside the
  state it keeps the list of the nodes it has run.
\<close>

function run_graph ::
  "collaborators \<Rightarrow> node \<Rightarrow> EmailAgentState \<Rightarrow> node list \<Rightarrow> exn + EmailAgentState \<times> node list" where
  "run_graph env n state visited =
     (case run_node env n state of
        Inl e \<Rightarrow> Inl e
      | Inr state' \<Rightarrow>
          (case next_node n state' of
             Inl e \<Rightarrow> Inl e
           | Inr None \<Rightarrow> Inr (state', visited @ [n])
           | Inr (Some n') \<Rightarrow> run_graph env n' state' (visited @ [n])))"
  by pat_completeness auto
termination
proof (relation "measure (\<lambda>(env, n, state, visited). 6 - rank n)")
  fix env :: collaborators and n n' :: node and state state' :: EmailAgentState
    and visited :: "node list" and dest :: "node option"
  assume "next_node n state' = Inr dest" and "dest = Some n'"
  then have "rank n < rank n'"
    by (cases n) (auto simp: conditional_edge_def split: sum.splits option.splits if_splits)
  moreover have "rank n' < 6"
    by (cases n') auto
  ultimately show "((env, n', state', visited @ [n]), (env, n, state, visited))
      \<in> measure (\<lambda>(env, n, state, visited). 6 - rank n)"
    by simp
qed simp

declare run_graph.simps [simp del]

definition initial_state :: "EmailData \<Rightarrow> EmailAgentState" where
  "initial_state email_data =
     \<lparr>email = email_data, sender_context = None, classification = None,
      calendar_availability = None, response_draft = None, final_response = None,
      should_send = False, messages = [], error = None\<rparr>"

text \<open>\<open>graph.invoke\<close>: the run from the entry point, with the nodes run.\<close>

definition invoke :: "collaborators \<Rightarrow> EmailAgentState \<Rightarrow> exn + EmailAgentState \<times> node list" where
  "invoke env state = run_graph env N_enrich_sender state []"

definition process_email :: "collaborators \<Rightarrow> EmailData \<Rightarrow> exn + EmailAgentState" where
  "process_email env email_data =
     (case invoke env (initial_state email_data) of
        Inl e \<Rightarrow> Inl e
      | Inr (final_state, visited) \<Rightarrow> Inr final_state)"

text \<open>The nodes a call of \<open>process_email\<close> runs, in order (empty when the call raises).\<close>

definition stages_run :: "collaborators \<Rightarrow> EmailData \<Rightarrow> node list" where
  "stages_run env email_data =
     (case invoke env (initial_state email_data) of
        Inl e \<Rightarrow> []
      | Inr (final_state, visited) \<Rightarrow> visited)"

section \<open>Test doubles and sample inputs\<close>

text \<open>
  Collaborators that follow a script: the model answers a classification prompt with \<open>r1\<close> and
  a response prompt with \<open>r2\<close>, the parsers return \<open>c\<close> and \<open>d\<close>, and the clock reads
  \<open>now\<close>.
\<close>

definition scripted ::
  "string + string \<Rightarrow> string + string \<Rightarrow> string + EmailClassification \<Rightarrow> string + ResponseDraft
     \<Rightarrow> datetime \<Rightarrow> collaborators" where
  "scripted r1 r2 c d now =
     \<lparr>llm_invoke = (\<lambda>p. case p of
                        CLASSIFICATION_PROMPT a1 a2 a3 a4 a5 a6 a7 \<Rightarrow> r1
                      | RESPONSE_PROMPT b1 b2 b3 b4 b5 b6 b7 b8 \<Rightarrow> r2),
      classification_parse = (\<lambda>t. c),
      response_parse = (\<lambda>t. d),
      strftime = (\<lambda>dt fmt. fmt),
      clock = now\<rparr>"

text \<open>4 November 2026, 16:12, and the same day at 09:30.\<close>

definition sample_now :: datetime where
  "sample_now = \<lparr>ordinal = 739924, hour = 16, minute = 12, second = 0, microsecond = 0\<rparr>"

definition sample_morning :: datetime where
  "sample_morning = \<lparr>ordinal = 739924, hour = 9, minute = 30, second = 0, microsecond = 0\<rparr>"

text \<open>The email of tests/test\_agent.py and the first email of src/main.py.\<close>

definition test_email :: EmailData where
  "test_email =
     \<lparr>sender = ''test@example.com'', sender_title = None, sender_company = None,
      subject = ''Test Subject'', content = ''Test content'',
      received_at = sample_now, thread_id = None\<rparr>"

definition meeting_email :: EmailData where
  "meeting_email =
     \<lparr>sender = ''ceo@company.com'', sender_title = Some ''CEO'',
      sender_company = Some ''Important Corp'',
      subject = ''Meeting Request: Q4 Strategy Discussion'',
      content = ''Hi, I'd like to schedule a meeting next week to discuss our Q4 strategy. Are you available Tuesday or Wednesday afternoon?'',
      received_at = sample_now, thread_id = None\<rparr>"

definition meeting_classification :: EmailClassification where
  "meeting_classification =
     \<lparr>intent = MEETING_REQUEST, urgency = HIGH, requires_response = True,
      reasoning = ''The sender asks for a meeting''\<rparr>"

definition newsletter_classification :: EmailClassification where
  "newsletter_classification =
     \<lparr>intent = NEWSLETTER, urgency = LOW, requires_response = False,
      reasoning = ''Promotional content''\<rparr>"

definition meeting_draft :: ResponseDraft where
  "meeting_draft =
     \<lparr>draft_subject = ''Re: Meeting Request: Q4 Strategy Discussion'',
      draft_content = ''Happy to meet. Here are some times.'',
      tone = ''formal'', includes_meeting_times = True, proposed_times = []\<rparr>"

definition newsletter_collaborators :: collaborators where
  "newsletter_collaborators =
     scripted (Inr ''newsletter'') (Inr ''draft'')
       (Inr newsletter_classification) (Inr meeting_draft) sample_now"

definition meeting_collaborators :: collaborators where
  "meeting_collaborators =
     scripted (Inr ''meeting'') (Inr ''draft'')
       (Inr meeting_classification) (Inr meeting_draft) sample_now"

text \<open>A model that is unreachable, and one that is lost after the classification.\<close>

definition failing_collaborators :: collaborators where
  "failing_collaborators =
     scripted (Inl ''Connection error.'') (Inl ''Request timed out.'')
       (Inr meeting_classification) (Inr meeting_draft) sample_now"

definition half_failing_collaborators :: collaborators where
  "half_failing_collaborators =
     scripted (Inr ''meeting'') (Inl ''Request timed out.'')
       (Inr meeting_classification) (Inr meeting_draft) sample_now"

definition plain_draft :: ResponseDraft where
  "plain_draft =
     \<lparr>draft_subject = ''Re: Meeting Request: Q4 Strategy Discussion'',
      draft_content = ''Thank you for reaching out. Let us find a time.'',
      tone = ''formal'', includes_meeting_times = False, proposed_times = []\<rparr>"

definition plain_reply_collaborators :: collaborators where
  "plain_reply_collaborators =
     scripted (Inr ''meeting'') (Inr ''draft'')
       (Inr meeting_classification) (Inr plain_draft) sample_now"

definition morning_collaborators :: collaborators where
  "morning_collaborators =
     scripted (Inr ''meeting'') (Inr ''draft'')
       (Inr meeting_classification) (Inr meeting_draft) sample_morning"

definition classified_meeting :: EmailAgentState where
  "classified_meeting =
     (initial_state meeting_email)
       \<lparr>sender_context := Some (get_sender_context ''ceo@company.com''),
        classification := Some meeting_classification\<rparr>"

section \<open>The availability provider\<close>

lemma loop_ok:
  "\<forall>d \<in> set days. MINORDINAL \<le> ordinal now + d \<and> ordinal now + d \<le> MAXORDINAL \<and>
       \<bar>d\<bar> \<le> 999999999 \<Longrightarrow>
   availability_loop now days slots =
     Inr (slots @ concat (map (\<lambda>d. day_slots (now\<lparr>ordinal := ordinal now + d\<rparr>)) days))"
  by (induction days arbitrary: slots) (auto simp: timedelta_days_def datetime_add_def)

lemma loop_raises:
  "d \<in> set days \<Longrightarrow> datetime_add now d = Inl OverflowError \<Longrightarrow>
   availability_loop now days slots = Inl OverflowError"
  by (induction days arbitrary: slots)
     (auto simp: timedelta_days_def datetime_add_def split: sum.splits if_splits)

lemma loop_length:
  "availability_loop now days slots = Inr r \<Longrightarrow> length r = length slots + 2 * length days"
  by (induction days arbitrary: slots) (auto simp: day_slots_def split: sum.splits)

lemma start_micro:
  "to_micro (replace_time (now\<lparr>ordinal := k\<rparr>) h 0 0 0) = (k * 24 + int h) * 3600000000"
  by (simp add: to_micro_def replace_time_def)

lemma sorted_days:
  "sorted_wrt (<) days \<Longrightarrow>
   sorted_wrt (\<lambda>a b. to_micro (start_time a) < to_micro (start_time b))
     (concat (map (\<lambda>d. day_slots (now\<lparr>ordinal := ordinal now + d\<rparr>)) days))"
  by (induction days) (auto simp: day_slots_def start_micro)

lemma sorted_wrt_take_prefix: "sorted_wrt R xs \<Longrightarrow> sorted_wrt R (take n xs)"
  by (metis append_take_drop_id sorted_wrt_append)

lemma slot_span:
  "slot \<in> set (concat (map (\<lambda>d. day_slots (now\<lparr>ordinal := ordinal now + d\<rparr>)) days)) \<Longrightarrow>
   to_micro (end_time slot) - to_micro (start_time slot) = duration_minutes slot * 60000000
   \<and> to_micro (start_time slot) < to_micro (end_time slot)"
  by (auto simp: day_slots_def start_micro)

lemma get_availability_ok:
  assumes "1 \<le> days_ahead" "MINORDINAL \<le> ordinal now" "ordinal now + days_ahead \<le> MAXORDINAL"
  shows "get_availability now days_ahead =
     Inr (take 5 (concat (map (\<lambda>d. day_slots (now\<lparr>ordinal := ordinal now + d\<rparr>))
                           [1..days_ahead])))"
proof -
  have "\<forall>d \<in> set [1..days_ahead].
          MINORDINAL \<le> ordinal now + d \<and> ordinal now + d \<le> MAXORDINAL \<and> \<bar>d\<bar> \<le> 999999999"
    using assms by (auto simp: MINORDINAL_def MAXORDINAL_def)
  from loop_ok[OF this] show ?thesis by (simp add: get_availability_def)
qed

lemma get_availability_raises:
  assumes "1 \<le> days_ahead" "MAXORDINAL < ordinal now + days_ahead"
  shows "get_availability now days_ahead = Inl OverflowError"
proof -
  have "days_ahead \<in> set [1..days_ahead]" using assms by simp
  moreover have "datetime_add now days_ahead = Inl OverflowError"
    using assms by (simp add: datetime_add_def)
  ultimately have "availability_loop now [1..days_ahead] [] = Inl OverflowError"
    by (rule loop_raises)
  then show ?thesis by (simp add: get_availability_def)
qed

lemma get_availability_length:
  assumes "get_availability now days_ahead = Inr slots" and "1 \<le> days_ahead"
  shows "int (length slots) = min (2 * days_ahead) 5"
proof -
  from assms(1) obtain r where r: "availability_loop now [1..days_ahead] [] = Inr r"
    and slots: "slots = take 5 r"
    by (auto simp: get_availability_def split: sum.splits)
  from loop_length[OF r] have "length r = 2 * nat days_ahead" using assms(2) by simp
  with slots assms(2) show ?thesis by auto
qed

text \<open>
  Claim C6, as amended. For every reading \<open>now\<close> of the clock and every
  \<open>days_ahead \<ge> 1\<close> for which the last day asked for, today plus \<open>days_ahead\<close> days, is
  still a date of the calendar (no later than 9999-12-31),
  \<open>get_availability\<close> returns a list of slots that is strictly increasing in start time, in
  which every slot ends after it starts and lasts \<open>duration_minutes\<close> minutes, and whose length
  is \<open>min (2 * days_ahead) 5\<close>.
\<close>

theorem get_availability_in_range:
  assumes "1 \<le> days_ahead"
    and "valid_datetime now"
    and "ordinal now + days_ahead \<le> MAXORDINAL"
  shows "\<exists>slots. get_availability now days_ahead = Inr slots \<and>
           sorted_wrt (\<lambda>a b. to_micro (start_time a) < to_micro (start_time b)) slots \<and>
           (\<forall>slot \<in> set slots.
              to_micro (start_time slot) < to_micro (end_time slot) \<and>
              to_micro (end_time slot) - to_micro (start_time slot)
                = duration_minutes slot * 60000000) \<and>
           int (length slots) = min (2 * days_ahead) 5"
proof -
  let ?all = "concat (map (\<lambda>d. day_slots (now\<lparr>ordinal := ordinal now + d\<rparr>)) [1..days_ahead])"
  from assms(2) have "MINORDINAL \<le> ordinal now"
    by (simp add: valid_datetime_def)
  with assms(1) have res: "get_availability now days_ahead = Inr (take 5 ?all)"
    using assms(3) by (rule get_availability_ok)
  have "sorted_wrt (\<lambda>a b. to_micro (start_time a) < to_micro (start_time b)) ?all"
    by (rule sorted_days) simp
  then have ordered: "sorted_wrt (\<lambda>a b. to_micro (start_time a) < to_micro (start_time b))
      (take 5 ?all)"
    by (rule sorted_wrt_take_prefix)
  have spans: "\<forall>slot \<in> set (take 5 ?all).
      to_micro (start_time slot) < to_micro (end_time slot) \<and>
      to_micro (end_time slot) - to_micro (start_time slot) = duration_minutes slot * 60000000"
  proof
    fix slot assume "slot \<in> set (take 5 ?all)"
    then have "slot \<in> set ?all" by (rule in_set_takeD)
    from slot_span[OF this] show "to_micro (start_time slot) < to_micro (end_time slot) \<and>
      to_micro (end_time slot) - to_micro (start_time slot) = duration_minutes slot * 60000000"
      by simp
  qed
  have "int (length (take 5 ?all)) = min (2 * days_ahead) 5"
    using res assms(1) by (rule get_availability_length)
  with res ordered spans show ?thesis by blast
qed

theorem get_availability_in_range_witness:
  "(1::int) \<le> 7 \<and> valid_datetime sample_now \<and> ordinal sample_now + 7 \<le> MAXORDINAL \<and>
   (\<exists>slots. get_availability sample_now 7 = Inr slots \<and>
      sorted_wrt (\<lambda>a b. to_micro (start_time a) < to_micro (start_time b)) slots \<and>
      (\<forall>slot \<in> set slots.
         to_micro (start_time slot) < to_micro (end_time slot) \<and>
         to_micro (end_time slot) - to_micro (start_time slot)
           = duration_minutes slot * 60000000) \<and>
      int (length slots) = 5)"
proof -
  have h1: "(1::int) \<le> 7" by simp
  have h2: "valid_datetime sample_now"
    by (simp add: valid_datetime_def MINORDINAL_def MAXORDINAL_def sample_now_def)
  have h3: "ordinal sample_now + 7 \<le> MAXORDINAL" by (simp add: MAXORDINAL_def sample_now_def)
  from get_availability_in_range[OF h1 h2 h3] h1 h2 h3 show ?thesis by simp
qed

text \<open>
  Claim C6 as stated, for every \<open>days_ahead \<ge> 1\<close>, fails where the loop reaches a day past
  the last date of the calendar: on 4 November 2026, \<open>get_availability(3000000)\<close> raises
  \<open>OverflowError\<close> on the way and returns no list.
\<close>

theorem get_availability_overflow:
  "get_availability sample_now 3000000 = Inl OverflowError"
  by (rule get_availability_raises) (simp_all add: sample_now_def MAXORDINAL_def)

section \<open>What each stage does to the state\<close>

lemma enrich_eq:
  "enrich_sender_context state =
     Inr (state\<lparr>sender_context := Some (get_sender_context (sender (email state))),
                messages := messages state @
                  [HumanMessage (''Enriched sender context for '' @ sender (email state))]\<rparr>)"
  by (simp add: enrich_sender_context_def Let_def)

lemma classify_eq:
  "sender_context state = Some ctx \<Longrightarrow>
   classify_email env state =
     Inr (case invoke_classification env (classification_prompt (email state) ctx) of
            Inr c \<Rightarrow>
              state\<lparr>classification := Some c,
                    messages := messages state @
                      [AIMessage (''Classified email: '' @ intent_value (intent c) @ '', ''
                                    @ urgency_value (urgency c))]\<rparr>
          | Inl m \<Rightarrow>
              state\<lparr>error := Some (''Classification failed: '' @ m),
                    classification := Some default_classification\<rparr>)"
  by (simp add: classify_email_def Let_def split: sum.splits)

lemma calendar_eq:
  "classification state = Some c \<Longrightarrow>
   check_calendar_availability env state =
     (if intent c = MEETING_REQUEST then
        (case get_availability (clock env) 7 of
           Inl x \<Rightarrow> Inl x
         | Inr availability \<Rightarrow>
             Inr (state\<lparr>calendar_availability := Some availability,
                        messages := messages state @
                          [HumanMessage (''Retrieved '' @ str_nat (length availability)
                                           @ '' available time slots'')]\<rparr>))
      else Inr state)"
  by (simp add: check_calendar_availability_def)

lemma draft_eq:
  "classification state = Some c \<Longrightarrow> sender_context state = Some ctx \<Longrightarrow>
   draft_response env state =
     Inr (case invoke_response env
                 (response_prompt (email state) c ctx
                    (availability_text env (calendar_availability state))) of
            Inr draft \<Rightarrow>
              state\<lparr>response_draft := Some draft,
                    messages := messages state @
                      [AIMessage (''Drafted response with tone: '' @ tone draft)]\<rparr>
          | Inl m \<Rightarrow>
              state\<lparr>error := Some (''Response drafting failed: '' @ m),
                    response_draft := Some (default_draft (email state))\<rparr>)"
  by (simp add: draft_response_def Let_def split: sum.splits)

lemma review_eq:
  "response_draft state = Some draft \<Longrightarrow>
   human_review state =
     Inr (state\<lparr>should_send := True,
                final_response := Some (draft_content draft),
                messages := messages state @
                  [HumanMessage ''Email draft presented for human review'']\<rparr>)"
  by (simp add: human_review_def)

lemma classify_keeps:
  assumes "classify_email env state = Inr s'"
  shows "email s' = email state \<and> sender_context s' = sender_context state \<and>
    calendar_availability s' = calendar_availability state \<and>
    response_draft s' = response_draft state \<and> should_send s' = should_send state \<and>
    final_response s' = final_response state \<and>
    (\<exists>c. classification s' = Some c)"
proof (cases "sender_context state")
  case None
  with assms show ?thesis by (simp add: classify_email_def)
next
  case (Some ctx)
  from assms classify_eq[OF Some, of env] show ?thesis
    by (cases "invoke_classification env (classification_prompt (email state) ctx)") auto
qed


lemma calendar_keeps:
  assumes "check_calendar_availability env state = Inr s'"
  shows "email s' = email state \<and> sender_context s' = sender_context state \<and>
    classification s' = classification state \<and>
    response_draft s' = response_draft state \<and> should_send s' = should_send state \<and>
    final_response s' = final_response state \<and> error s' = error state"
proof (cases "classification state")
  case None
  with assms show ?thesis by (simp add: check_calendar_availability_def)
next
  case (Some c)
  show ?thesis
  proof (cases "intent c = MEETING_REQUEST")
    case True
    with assms calendar_eq[OF Some, of env] show ?thesis
      by (cases "get_availability (clock env) 7") auto
  next
    case False
    with assms calendar_eq[OF Some, of env] show ?thesis by simp
  qed
qed

lemma calendar_slots:
  assumes "check_calendar_availability env state = Inr s'" and "classification state = Some c"
  shows "calendar_availability s' =
     (if intent c = MEETING_REQUEST
      then (case get_availability (clock env) 7 of Inr a \<Rightarrow> Some a | Inl x \<Rightarrow> None)
      else calendar_availability state)"
proof (cases "intent c = MEETING_REQUEST")
  case True
  with assms calendar_eq[OF assms(2), of env] show ?thesis
    by (cases "get_availability (clock env) 7") auto
next
  case False
  with assms calendar_eq[OF assms(2), of env] show ?thesis by simp
qed

lemma draft_keeps:
  assumes "draft_response env state = Inr s'"
  shows "email s' = email state \<and> sender_context s' = sender_context state \<and>
    classification s' = classification state \<and>
    calendar_availability s' = calendar_availability state \<and>
    should_send s' = should_send state \<and>
    final_response s' = final_response state \<and>
    (\<exists>d. response_draft s' = Some d)"
proof (cases "classification state")
  case None
  with assms show ?thesis by (simp add: draft_response_def Let_def)
next
  case c: (Some c)
  show ?thesis
  proof (cases "sender_context state")
    case None
    with assms c show ?thesis by (simp add: draft_response_def Let_def)
  next
    case (Some ctx)
    from assms draft_eq[OF c Some, of env] show ?thesis
      by (cases "invoke_response env (response_prompt (email state) c ctx
                    (availability_text env (calendar_availability state)))") auto
  qed
qed

lemma review_keeps:
  assumes "human_review state = Inr s'"
  shows "email s' = email state \<and> sender_context s' = sender_context state \<and>
    classification s' = classification state \<and>
    calendar_availability s' = calendar_availability state \<and>
    response_draft s' = response_draft state \<and> error s' = error state \<and>
    should_send s' \<and> final_response s' = map_option draft_content (response_draft state)"
proof (cases "response_draft state")
  case None
  with assms show ?thesis by (simp add: human_review_def)
next
  case (Some d)
  from assms review_eq[OF Some] Some show ?thesis by auto
qed

lemma send_keeps:
  assumes "send_email state = Inr s'"
  shows "email s' = email state \<and> sender_context s' = sender_context state \<and>
    classification s' = classification state \<and>
    calendar_availability s' = calendar_availability state \<and>
    response_draft s' = response_draft state \<and> error s' = error state \<and>
    should_send s' = should_send state \<and> final_response s' = final_response state"
  using assms by (auto simp: send_email_def)

section \<open>The runs of the graph\<close>

lemma next_after_classify:
  "classification s = Some c \<Longrightarrow>
   next_node N_classify_email s =
     Inr (if \<not> requires_response c \<or> intent c \<in> {SPAM, NEWSLETTER} then None else Some N_check_calendar)"
  by (simp add: conditional_edge_def should_respond_def)

lemma next_after_calendar:
  "classification s = Some c \<Longrightarrow> next_node N_check_calendar s = Inr (Some N_draft_response)"
  by (simp add: conditional_edge_def needs_calendar_def)

lemma next_after_review:
  "next_node N_human_review s = Inr (if should_send s then Some N_send_email else None)"
  by (simp add: conditional_edge_def human_approval_def)

lemma run_from_send:
  "run_graph env N_send_email s5 v =
     (case send_email s5 of Inl x \<Rightarrow> Inl x | Inr s6 \<Rightarrow> Inr (s6, v @ [N_send_email]))"
  by (subst run_graph.simps) (simp split: sum.splits)

lemma run_from_review:
  "run_graph env N_human_review s4 v =
     (case human_review s4 of
        Inl x \<Rightarrow> Inl x
      | Inr s5 \<Rightarrow> run_graph env N_send_email s5 (v @ [N_human_review]))"
proof (cases "human_review s4")
  case (Inl x)
  then show ?thesis by (subst run_graph.simps) simp
next
  case (Inr s5)
  then have "should_send s5" using review_keeps by blast
  then have "next_node N_human_review s5 = Inr (Some N_send_email)"
    by (simp add: next_after_review del: next_node.simps)
  with Inr show ?thesis by (subst run_graph.simps) (simp del: next_node.simps)
qed

lemma run_from_draft:
  "run_graph env N_draft_response s3 v =
     (case draft_response env s3 of
        Inl x \<Rightarrow> Inl x
      | Inr s4 \<Rightarrow> run_graph env N_human_review s4 (v @ [N_draft_response]))"
  by (subst run_graph.simps) (simp split: sum.splits)

lemma run_from_calendar:
  assumes "classification s2 = Some c"
  shows "run_graph env N_check_calendar s2 v =
     (case check_calendar_availability env s2 of
        Inl x \<Rightarrow> Inl x
      | Inr s3 \<Rightarrow> run_graph env N_draft_response s3 (v @ [N_check_calendar]))"
proof (cases "check_calendar_availability env s2")
  case (Inl x)
  then show ?thesis by (subst run_graph.simps) simp
next
  case (Inr s3)
  then have "classification s3 = Some c" using calendar_keeps assms by metis
  then have "next_node N_check_calendar s3 = Inr (Some N_draft_response)"
    by (rule next_after_calendar)
  with Inr show ?thesis by (subst run_graph.simps) (simp del: next_node.simps)
qed

lemma run_to_classify:
  assumes "enrich_sender_context (initial_state e) = Inr s1" "classify_email env s1 = Inr s2"
    "classification s2 = Some c"
  shows "invoke env (initial_state e) =
     (if \<not> requires_response c \<or> intent c \<in> {SPAM, NEWSLETTER}
      then Inr (s2, [N_enrich_sender, N_classify_email])
      else run_graph env N_check_calendar s2 [N_enrich_sender, N_classify_email])"
proof -
  have "invoke env (initial_state e) = run_graph env N_classify_email s1 [N_enrich_sender]"
    unfolding invoke_def by (subst run_graph.simps) (simp add: assms)
  also have "\<dots> = (if \<not> requires_response c \<or> intent c \<in> {SPAM, NEWSLETTER}
      then Inr (s2, [N_enrich_sender, N_classify_email])
      else run_graph env N_check_calendar s2 [N_enrich_sender, N_classify_email])"
    by (subst run_graph.simps) (simp add: assms next_after_classify del: next_node.simps)
  finally show ?thesis .
qed

lemma classify_total:
  "\<exists>s1 s2 c. enrich_sender_context (initial_state e) = Inr s1 \<and> classify_email env s1 = Inr s2
     \<and> classification s2 = Some c"
proof -
  obtain s1 where s1: "enrich_sender_context (initial_state e) = Inr s1"
    by (simp add: enrich_eq)
  then have "sender_context s1 = Some (get_sender_context (sender e))"
    by (auto simp: enrich_eq initial_state_def)
  from classify_eq[OF this, of env] obtain s2 where s2: "classify_email env s1 = Inr s2"
    by simp
  with classify_keeps obtain c where "classification s2 = Some c" by blast
  with s1 s2 show ?thesis by blast
qed

lemma run_respond:
  assumes "classification s2 = Some c"
  shows "run_graph env N_check_calendar s2 v =
     (case check_calendar_availability env s2 of
        Inl x \<Rightarrow> Inl x
      | Inr s3 \<Rightarrow>
          (case draft_response env s3 of
             Inl x \<Rightarrow> Inl x
           | Inr s4 \<Rightarrow>
               (case human_review s4 of
                  Inl x \<Rightarrow> Inl x
                | Inr s5 \<Rightarrow>
                    (case send_email s5 of
                       Inl x \<Rightarrow> Inl x
                     | Inr s6 \<Rightarrow>
                         Inr (s6, v @ [N_check_calendar, N_draft_response,
                                       N_human_review, N_send_email])))))"
  by (simp add: run_from_calendar[OF assms] run_from_draft run_from_review run_from_send
      split: sum.splits)

lemma invoke_outcome:
  assumes "invoke env (initial_state e) = Inr (s, v)"
  shows "\<exists>s1 s2 c. enrich_sender_context (initial_state e) = Inr s1 \<and>
      classify_email env s1 = Inr s2 \<and> classification s2 = Some c \<and>
      ((\<not> requires_response c \<or> intent c \<in> {SPAM, NEWSLETTER}) \<and> s = s2 \<and>
         v = [N_enrich_sender, N_classify_email]
       \<or> requires_response c \<and> intent c \<notin> {SPAM, NEWSLETTER} \<and>
         (\<exists>s3 s4 s5. check_calendar_availability env s2 = Inr s3 \<and>
            draft_response env s3 = Inr s4 \<and> human_review s4 = Inr s5 \<and>
            send_email s5 = Inr s \<and>
            v = [N_enrich_sender, N_classify_email, N_check_calendar, N_draft_response,
                 N_human_review, N_send_email]))"
proof -
  from classify_total[of e env] obtain s1 s2 c where
    st: "enrich_sender_context (initial_state e) = Inr s1" "classify_email env s1 = Inr s2"
      "classification s2 = Some c"
    by blast
  show ?thesis
  proof (cases "\<not> requires_response c \<or> intent c \<in> {SPAM, NEWSLETTER}")
    case True
    with run_to_classify[OF st] assms have "s = s2 \<and> v = [N_enrich_sender, N_classify_email]"
      by simp
    with st True show ?thesis by blast
  next
    case False
    with run_to_classify[OF st] assms
    have "run_graph env N_check_calendar s2 [N_enrich_sender, N_classify_email] = Inr (s, v)"
      by simp
    then have "\<exists>s3 s4 s5. check_calendar_availability env s2 = Inr s3 \<and>
            draft_response env s3 = Inr s4 \<and> human_review s4 = Inr s5 \<and>
            send_email s5 = Inr s \<and>
            v = [N_enrich_sender, N_classify_email, N_check_calendar, N_draft_response,
                 N_human_review, N_send_email]"
      by (auto simp: run_respond[OF st(3)] split: sum.splits)
    with st False show ?thesis by blast
  qed
qed

lemma process_email_Inr:
  "process_email env e = Inr s \<longleftrightarrow> (\<exists>v. invoke env (initial_state e) = Inr (s, v))"
  by (auto simp: process_email_def split: sum.splits)

lemma stages_run_Inr:
  "invoke env (initial_state e) = Inr (s, v) \<Longrightarrow> stages_run env e = v"
  by (simp add: stages_run_def)

lemma initial_fields:
  "enrich_sender_context (initial_state e) = Inr s1 \<Longrightarrow>
   email s1 = e \<and> sender_context s1 = Some (get_sender_context (sender e)) \<and>
   classification s1 = None \<and> calendar_availability s1 = None \<and> response_draft s1 = None \<and>
   final_response s1 = None \<and> \<not> should_send s1 \<and> error s1 = None"
  by (auto simp: enrich_eq initial_state_def)

text \<open>
  A run can only raise in the calendar check: whenever \<open>get_availability()\<close> returns at the
  clock of the run, \<open>process_email\<close> returns a final state.
\<close>

lemma process_email_returns:
  assumes "get_availability (clock env) 7 = Inr a"
  shows "\<exists>s. process_email env e = Inr s"
proof -
  from classify_total[of e env] obtain s1 s2 c where
    st: "enrich_sender_context (initial_state e) = Inr s1" "classify_email env s1 = Inr s2"
      "classification s2 = Some c"
    by blast
  from initial_fields[OF st(1)] classify_keeps[OF st(2)]
  obtain ctx where ctx: "sender_context s2 = Some ctx" by simp
  from calendar_eq[OF st(3), of env] assms
  obtain s3 where s3: "check_calendar_availability env s2 = Inr s3" by (cases "intent c = MEETING_REQUEST") auto
  from calendar_keeps[OF s3] st(3) ctx
  have "classification s3 = Some c" "sender_context s3 = Some ctx" by simp_all
  from draft_eq[OF this, of env] obtain s4 where s4: "draft_response env s3 = Inr s4" by simp
  from draft_keeps[OF s4] obtain d where "response_draft s4 = Some d" by blast
  from review_eq[OF this] obtain s5 where s5: "human_review s4 = Inr s5" by simp
  obtain s6 where s6: "send_email s5 = Inr s6" by (simp add: send_email_def)
  show ?thesis
    using run_to_classify[OF st] run_respond[OF st(3), of env "[N_enrich_sender, N_classify_email]"]
      s3 s4 s5 s6
    by (auto simp: process_email_def)
qed

section \<open>Routing after the classify stage\<close>

text \<open>
  Claim C1. Let \<open>c\<close> be the classification the classify stage leaves in the state. If
  \<open>requires_response\<close> of \<open>c\<close> is false, or its intent is spam or newsletter, then
  \<open>process_email\<close> returns the state as it is after the classify stage, the stages run are
  the enrich and classify stages only (so neither the drafting nor the send stage runs),
  \<open>response_draft\<close> is absent and \<open>should_send\<close> is false. For every other classification
  the run goes on with the calendar-check stage. By \<open>classify_total\<close> every email has such
  a classification, whatever the model does.
\<close>

theorem ignored_email_ends_after_classify:
  assumes "enrich_sender_context (initial_state e) = Inr s1"
    and "classify_email env s1 = Inr s2"
    and "classification s2 = Some c"
  shows "if \<not> requires_response c \<or> intent c \<in> {SPAM, NEWSLETTER}
         then process_email env e = Inr s2 \<and>
              stages_run env e = [N_enrich_sender, N_classify_email] \<and>
              response_draft s2 = None \<and> \<not> should_send s2
         else invoke env (initial_state e) =
                run_graph env N_check_calendar s2 [N_enrich_sender, N_classify_email]"
proof -
  from initial_fields[OF assms(1)] classify_keeps[OF assms(2)]
  have "response_draft s2 = None \<and> \<not> should_send s2" by simp
  with run_to_classify[OF assms] show ?thesis
    by (simp add: process_email_def stages_run_def)
qed

theorem ignored_email_ends_after_classify_witness:
  "classification
     (projr (classify_email newsletter_collaborators
        (projr (enrich_sender_context (initial_state test_email)))))
     = Some newsletter_classification \<and>
   \<not> requires_response newsletter_classification \<and>
   stages_run newsletter_collaborators test_email = [N_enrich_sender, N_classify_email] \<and>
   \<not> isl (process_email newsletter_collaborators test_email) \<and>
   response_draft (projr (process_email newsletter_collaborators test_email)) = None \<and>
   \<not> should_send (projr (process_email newsletter_collaborators test_email))"
proof -
  let ?s1 = "projr (enrich_sender_context (initial_state test_email))"
  let ?s2 = "projr (classify_email newsletter_collaborators ?s1)"
  have h1: "enrich_sender_context (initial_state test_email) = Inr ?s1"
    by (simp add: enrich_eq)
  have "sender_context ?s1 = Some (get_sender_context (sender test_email))"
    by (simp add: enrich_eq initial_state_def)
  from classify_eq[OF this]
  have h2: "classify_email newsletter_collaborators ?s1 = Inr ?s2"
    by simp
  have h3: "classification ?s2 = Some newsletter_classification"
    by code_simp
  have h4: "\<not> requires_response newsletter_classification"
    by (simp add: newsletter_classification_def)
  from ignored_email_ends_after_classify[OF h1 h2 h3] h3 h4 show ?thesis
    by simp
qed

section \<open>The calendar check\<close>

text \<open>
  Claim C2. In the final state of a run, with \<open>c\<close> its classification: if the intent of
  \<open>c\<close> is a meeting request and the calendar-check stage has run, \<open>calendar_availability\<close>
  is a list that is not empty and has at most 5 slots; if the intent is anything else,
  \<open>calendar_availability\<close> is still absent.
\<close>

theorem calendar_availability_by_intent:
  assumes "process_email env e = Inr s" and "classification s = Some c"
  shows "(intent c = MEETING_REQUEST \<and> N_check_calendar \<in> set (stages_run env e) \<longrightarrow>
            (\<exists>slots. calendar_availability s = Some slots \<and> slots \<noteq> [] \<and> length slots \<le> 5)) \<and>
         (intent c \<noteq> MEETING_REQUEST \<longrightarrow> calendar_availability s = None)"
proof -
  from assms(1) obtain v where inv: "invoke env (initial_state e) = Inr (s, v)"
    by (auto simp: process_email_Inr)
  then have v: "stages_run env e = v" by (rule stages_run_Inr)
  from invoke_outcome[OF inv] obtain s1 s2 c' where
    st: "enrich_sender_context (initial_state e) = Inr s1" "classify_email env s1 = Inr s2"
      "classification s2 = Some c'"
    and alt: "s = s2 \<and> v = [N_enrich_sender, N_classify_email] \<or>
         (\<exists>s3 s4 s5. check_calendar_availability env s2 = Inr s3 \<and>
            draft_response env s3 = Inr s4 \<and> human_review s4 = Inr s5 \<and>
            send_email s5 = Inr s)"
    by blast
  from initial_fields[OF st(1)] classify_keeps[OF st(2)]
  have none2: "calendar_availability s2 = None" by simp
  from alt show ?thesis
  proof
    assume "s = s2 \<and> v = [N_enrich_sender, N_classify_email]"
    with none2 v show ?thesis by simp
  next
    assume "\<exists>s3 s4 s5. check_calendar_availability env s2 = Inr s3 \<and>
            draft_response env s3 = Inr s4 \<and> human_review s4 = Inr s5 \<and>
            send_email s5 = Inr s"
    then obtain s3 s4 s5 where p: "check_calendar_availability env s2 = Inr s3"
      "draft_response env s3 = Inr s4" "human_review s4 = Inr s5" "send_email s5 = Inr s"
      by blast
    from calendar_keeps[OF p(1)] draft_keeps[OF p(2)] review_keeps[OF p(3)] send_keeps[OF p(4)]
    have same: "classification s = classification s2"
      "calendar_availability s = calendar_availability s3"
      by simp_all
    with st(3) assms(2) have cc: "c' = c" by simp
    show ?thesis
    proof (cases "intent c = MEETING_REQUEST")
      case False
      with calendar_slots[OF p(1) st(3)] cc none2 same show ?thesis by simp
    next
      case True
      with calendar_eq[OF st(3), of env] p(1) cc
      obtain a where a: "get_availability (clock env) 7 = Inr a"
        by (cases "get_availability (clock env) 7") auto
      from get_availability_length[OF a] have "length a = 5" by simp
      with calendar_slots[OF p(1) st(3)] cc a True same show ?thesis by auto
    qed
  qed
qed

theorem calendar_availability_by_intent_witness:
  "\<not> isl (process_email meeting_collaborators meeting_email) \<and>
   classification (projr (process_email meeting_collaborators meeting_email))
     = Some meeting_classification \<and>
   intent meeting_classification = MEETING_REQUEST \<and>
   N_check_calendar \<in> set (stages_run meeting_collaborators meeting_email) \<and>
   (\<exists>slots. calendar_availability (projr (process_email meeting_collaborators meeting_email))
              = Some slots \<and> slots \<noteq> [] \<and> length slots \<le> 5)"
proof -
  let ?s = "projr (process_email meeting_collaborators meeting_email)"
  have h0: "\<not> isl (process_email meeting_collaborators meeting_email)"
    by code_simp
  then have h1: "process_email meeting_collaborators meeting_email = Inr ?s"
    by simp
  have h2: "classification ?s = Some meeting_classification"
    by code_simp
  have h3: "intent meeting_classification = MEETING_REQUEST"
    by (simp add: meeting_classification_def)
  have h4: "N_check_calendar \<in> set (stages_run meeting_collaborators meeting_email)"
    by code_simp
  from calendar_availability_by_intent[OF h1 h2] h0 h2 h3 h4 show ?thesis
    by simp
qed

section \<open>Review and send\<close>

text \<open>
  Claim C5. On every state that reaches the review stage (a state with a draft), the stage
  sets \<open>should_send\<close> to true and \<open>final_response\<close> to the content of the draft, whatever
  they were, and the run goes on with the send stage; the edge out of the review stage leads
  to the send stage exactly when \<open>should_send\<close> is true, and to the end otherwise.
\<close>

theorem review_approves_and_routes:
  assumes "response_draft state = Some draft"
  shows "(\<exists>s'. human_review state = Inr s' \<and> should_send s' \<and>
            final_response s' = Some (draft_content draft) \<and>
            run_graph env N_human_review state v
              = run_graph env N_send_email s' (v @ [N_human_review])) \<and>
         (\<forall>st. (next_node N_human_review st = Inr (Some N_send_email)) = should_send st) \<and>
         (\<forall>st. (next_node N_human_review st = Inr None) = (\<not> should_send st))"
proof -
  have "\<exists>s'. human_review state = Inr s' \<and> should_send s' \<and>
           final_response s' = Some (draft_content draft) \<and>
           run_graph env N_human_review state v
             = run_graph env N_send_email s' (v @ [N_human_review])"
    by (simp add: review_eq[OF assms] run_from_review)
  moreover have "\<forall>st. (next_node N_human_review st = Inr (Some N_send_email)) = should_send st"
    by (simp add: next_after_review del: next_node.simps)
  moreover have "\<forall>st. (next_node N_human_review st = Inr None) = (\<not> should_send st)"
    by (simp add: next_after_review del: next_node.simps)
  ultimately show ?thesis by blast
qed

theorem review_approves_and_routes_witness:
  "response_draft ((initial_state meeting_email)\<lparr>response_draft := Some meeting_draft\<rparr>)
     = Some meeting_draft \<and>
   (\<exists>s'. human_review ((initial_state meeting_email)\<lparr>response_draft := Some meeting_draft\<rparr>)
            = Inr s' \<and>
          should_send s' \<and>
          final_response s' = Some ''Happy to meet. Here are some times.'')"
proof -
  let ?st = "(initial_state meeting_email)\<lparr>response_draft := Some meeting_draft\<rparr>"
  have h: "response_draft ?st = Some meeting_draft" by simp
  from review_approves_and_routes[OF h, of meeting_collaborators "[]"] h show ?thesis
    by (auto simp: meeting_draft_def)
qed

text \<open>
  Claim C10. No run ends in the "rejected" branch: whenever the final state of a run has a
  draft, \<open>should_send\<close> is true in it and the send stage has run.
\<close>

theorem draft_is_always_sent:
  assumes "process_email env e = Inr s" and "response_draft s \<noteq> None"
  shows "should_send s \<and> N_send_email \<in> set (stages_run env e)"
proof -
  from assms(1) obtain v where inv: "invoke env (initial_state e) = Inr (s, v)"
    by (auto simp: process_email_Inr)
  then have v: "stages_run env e = v" by (rule stages_run_Inr)
  from invoke_outcome[OF inv] obtain s1 s2 where
    st: "enrich_sender_context (initial_state e) = Inr s1" "classify_email env s1 = Inr s2"
    and alt: "s = s2 \<or>
         (\<exists>s4 s5. human_review s4 = Inr s5 \<and> send_email s5 = Inr s \<and>
            v = [N_enrich_sender, N_classify_email, N_check_calendar, N_draft_response,
                 N_human_review, N_send_email])"
    by blast
  from initial_fields[OF st(1)] classify_keeps[OF st(2)]
  have "response_draft s2 = None" by simp
  with alt assms(2) obtain s4 s5 where p: "human_review s4 = Inr s5" "send_email s5 = Inr s"
    and vv: "v = [N_enrich_sender, N_classify_email, N_check_calendar, N_draft_response,
                 N_human_review, N_send_email]"
    by blast
  from review_keeps[OF p(1)] send_keeps[OF p(2)] have "should_send s" by simp
  with v vv show ?thesis by simp
qed

theorem draft_is_always_sent_witness:
  "\<not> isl (process_email meeting_collaborators meeting_email) \<and>
   response_draft (projr (process_email meeting_collaborators meeting_email)) \<noteq> None \<and>
   should_send (projr (process_email meeting_collaborators meeting_email)) \<and>
   N_send_email \<in> set (stages_run meeting_collaborators meeting_email)"
proof -
  let ?s = "projr (process_email meeting_collaborators meeting_email)"
  have h0: "\<not> isl (process_email meeting_collaborators meeting_email)"
    by code_simp
  then have h1: "process_email meeting_collaborators meeting_email = Inr ?s"
    by simp
  have h2: "response_draft ?s \<noteq> None"
    by code_simp
  from draft_is_always_sent[OF h1 h2] h0 h2 show ?thesis
    by simp
qed

section \<open>Failures of the model\<close>

lemma invoke_classification_Inl:
  "invoke_classification env p = Inl msg \<longleftrightarrow>
     llm_invoke env p = Inl msg \<or> (\<exists>r. llm_invoke env p = Inr r \<and> classification_parse env r = Inl msg)"
  by (auto simp: invoke_classification_def split: sum.splits)

lemma invoke_response_Inl:
  "invoke_response env p = Inl msg \<longleftrightarrow>
     llm_invoke env p = Inl msg \<or> (\<exists>r. llm_invoke env p = Inr r \<and> response_parse env r = Inl msg)"
  by (auto simp: invoke_response_def split: sum.splits)

lemma default_classification_routes:
  "classification s = Some default_classification \<Longrightarrow>
   next_node N_classify_email s = Inr (Some N_check_calendar)"
  by (simp add: next_after_classify default_classification_def del: next_node.simps)

text \<open>
  Claim C3. If the model call of the classify stage raises, or its output does not parse,
  the stage itself returns: the error field holds the text \<open>Classification failed: \<close>
  followed by the exception's text, which is not empty, and the classification is exactly the
  fallback (information request, medium urgency, response required, reasoning
  "Failed to classify, using default"). The edge then leads to the calendar-check stage, and
  the whole run returns a final state, with the fallback classification and a non-empty error,
  after running all six stages.
\<close>

theorem classify_failure_falls_back:
  assumes "llm_invoke env (classification_prompt e (get_sender_context (sender e))) = Inl msg \<or>
     (\<exists>r. llm_invoke env (classification_prompt e (get_sender_context (sender e))) = Inr r \<and>
          classification_parse env r = Inl msg)"
  shows "\<exists>s1 s2 s. enrich_sender_context (initial_state e) = Inr s1 \<and>
           classify_email env s1 = Inr s2 \<and>
           error s2 = Some (''Classification failed: '' @ msg) \<and>
           ''Classification failed: '' @ msg \<noteq> [] \<and>
           classification s2 =
             Some \<lparr>intent = INFORMATION_REQUEST, urgency = MEDIUM, requires_response = True,
                   reasoning = ''Failed to classify, using default''\<rparr> \<and>
           next_node N_classify_email s2 = Inr (Some N_check_calendar) \<and>
           process_email env e = Inr s \<and>
           classification s = classification s2 \<and>
           (\<exists>m. error s = Some m \<and> m \<noteq> []) \<and>
           stages_run env e =
             [N_enrich_sender, N_classify_email, N_check_calendar, N_draft_response,
              N_human_review, N_send_email]"
proof -
  let ?ctx = "get_sender_context (sender e)"
  from assms have fail: "invoke_classification env (classification_prompt e ?ctx) = Inl msg"
    by (simp add: invoke_classification_Inl)
  obtain s1 where s1: "enrich_sender_context (initial_state e) = Inr s1"
    by (simp add: enrich_eq)
  from initial_fields[OF s1] have f1: "email s1 = e" "sender_context s1 = Some ?ctx"
    "error s1 = None" by simp_all
  define s2 where "s2 = s1\<lparr>error := Some (''Classification failed: '' @ msg),
                           classification := Some default_classification\<rparr>"
  from classify_eq[OF f1(2), of env] fail f1(1)
  have s2: "classify_email env s1 = Inr s2" by (simp add: s2_def)
  have c2: "classification s2 = Some default_classification" by (simp add: s2_def)
  have e2: "error s2 = Some (''Classification failed: '' @ msg)" by (simp add: s2_def)
  have ctx2: "sender_context s2 = Some ?ctx" using f1 by (simp add: s2_def)
  have route: "next_node N_classify_email s2 = Inr (Some N_check_calendar)"
    using c2 by (rule default_classification_routes)
  have s3: "check_calendar_availability env s2 = Inr s2"
    using calendar_eq[OF c2, of env] by (simp add: default_classification_def)
  from draft_eq[OF c2 ctx2, of env] obtain s4 where s4: "draft_response env s2 = Inr s4"
    and e4: "\<exists>m. error s4 = Some m \<and> m \<noteq> []"
    by (cases "invoke_response env (response_prompt (email s2) default_classification ?ctx
                    (availability_text env (calendar_availability s2)))")
       (auto simp: e2)
  from draft_keeps[OF s4] obtain d where d: "response_draft s4 = Some d" by blast
  from review_eq[OF d] obtain s5 where s5: "human_review s4 = Inr s5" by simp
  obtain s6 where s6: "send_email s5 = Inr s6" by (simp add: send_email_def)
  have inv: "invoke env (initial_state e) =
      Inr (s6, [N_enrich_sender, N_classify_email, N_check_calendar, N_draft_response,
                N_human_review, N_send_email])"
    using run_to_classify[OF s1 s2 c2]
      run_respond[OF c2, of env "[N_enrich_sender, N_classify_email]"] s3 s4 s5 s6
    by (simp add: default_classification_def)
  then have p: "process_email env e = Inr s6" by (simp add: process_email_def)
  from inv have v: "stages_run env e =
      [N_enrich_sender, N_classify_email, N_check_calendar, N_draft_response,
       N_human_review, N_send_email]"
    by (rule stages_run_Inr)
  from draft_keeps[OF s4] review_keeps[OF s5] send_keeps[OF s6]
  have k: "classification s6 = classification s2" "error s6 = error s4" by simp_all
  from s1 s2 e2 c2 route p k e4 v show ?thesis
    by (simp add: default_classification_def)
qed

theorem classify_failure_falls_back_witness:
  "llm_invoke failing_collaborators
     (classification_prompt test_email (get_sender_context (sender test_email)))
     = Inl ''Connection error.'' \<and>
   (\<exists>s. process_email failing_collaborators test_email = Inr s \<and>
        classification s =
          Some \<lparr>intent = INFORMATION_REQUEST, urgency = MEDIUM, requires_response = True,
                reasoning = ''Failed to classify, using default''\<rparr> \<and>
        (\<exists>m. error s = Some m \<and> m \<noteq> []))"
proof -
  have h: "llm_invoke failing_collaborators
     (classification_prompt test_email (get_sender_context (sender test_email)))
     = Inl ''Connection error.''"
    by (simp add: failing_collaborators_def scripted_def classification_prompt_def)
  from classify_failure_falls_back[OF disjI1[OF h]] h show ?thesis
    by auto
qed

text \<open>
  Claim C4. On a state that reaches the drafting stage (classification and sender context
  present), if the model call of the stage raises, or its output does not parse, the stage
  itself returns: the error field holds \<open>Response drafting failed: \<close> followed by the
  exception's text, which is not empty, the draft is exactly the fallback draft (subject
  \<open>Re: \<close> and the subject of the email, the fixed content, tone "professional", the two
  other fields at their defaults), and the run goes on with the review stage, which accepts
  the state.
\<close>

theorem draft_failure_falls_back:
  assumes "classification state = Some c" and "sender_context state = Some ctx"
    and "llm_invoke env (response_prompt (email state) c ctx
            (availability_text env (calendar_availability state))) = Inl msg \<or>
         (\<exists>r. llm_invoke env (response_prompt (email state) c ctx
                  (availability_text env (calendar_availability state))) = Inr r \<and>
              response_parse env r = Inl msg)"
  shows "\<exists>s'. draft_response env state = Inr s' \<and>
           error s' = Some (''Response drafting failed: '' @ msg) \<and>
           ''Response drafting failed: '' @ msg \<noteq> [] \<and>
           response_draft s' =
             Some \<lparr>draft_subject = ''Re: '' @ subject (email state),
                   draft_content =
                     ''Thank you for your email. I'll review this and get back to you soon.'',
                   tone = ''professional'',
                   includes_meeting_times = False, proposed_times = []\<rparr> \<and>
           run_graph env N_draft_response state v
             = run_graph env N_human_review s' (v @ [N_draft_response]) \<and>
           (\<exists>s''. human_review s' = Inr s'')"
proof -
  from assms(3) have fail: "invoke_response env (response_prompt (email state) c ctx
            (availability_text env (calendar_availability state))) = Inl msg"
    by (simp add: invoke_response_Inl)
  define s' where "s' = state\<lparr>error := Some (''Response drafting failed: '' @ msg),
                             response_draft := Some (default_draft (email state))\<rparr>"
  from draft_eq[OF assms(1,2), of env] fail
  have d: "draft_response env state = Inr s'" by (simp add: s'_def)
  have r: "response_draft s' = Some (default_draft (email state))" by (simp add: s'_def)
  from review_eq[OF r] have "\<exists>s''. human_review s' = Inr s''" by simp
  moreover have "run_graph env N_draft_response state v
             = run_graph env N_human_review s' (v @ [N_draft_response])"
    by (simp add: run_from_draft d)
  moreover have "error s' = Some (''Response drafting failed: '' @ msg)" by (simp add: s'_def)
  ultimately show ?thesis using d r
    by (simp add: default_draft_def ResponseDraft_init_def)
qed

theorem draft_failure_falls_back_witness:
  "classification classified_meeting = Some meeting_classification \<and>
   sender_context classified_meeting = Some (get_sender_context ''ceo@company.com'') \<and>
   llm_invoke half_failing_collaborators
     (response_prompt (email classified_meeting) meeting_classification
        (get_sender_context ''ceo@company.com'')
        (availability_text half_failing_collaborators (calendar_availability classified_meeting)))
     = Inl ''Request timed out.'' \<and>
   (\<exists>s'. draft_response half_failing_collaborators classified_meeting = Inr s' \<and>
      error s' = Some ''Response drafting failed: Request timed out.'' \<and>
      response_draft s' =
        Some \<lparr>draft_subject = ''Re: Meeting Request: Q4 Strategy Discussion'',
              draft_content =
                ''Thank you for your email. I'll review this and get back to you soon.'',
              tone = ''professional'',
              includes_meeting_times = False, proposed_times = []\<rparr>)"
proof -
  have h1: "classification classified_meeting = Some meeting_classification"
    by (simp add: classified_meeting_def)
  have h2: "sender_context classified_meeting = Some (get_sender_context ''ceo@company.com'')"
    by (simp add: classified_meeting_def)
  have h3: "llm_invoke half_failing_collaborators
     (response_prompt (email classified_meeting) meeting_classification
        (get_sender_context ''ceo@company.com'')
        (availability_text half_failing_collaborators (calendar_availability classified_meeting)))
     = Inl ''Request timed out.''"
    by (simp add: half_failing_collaborators_def scripted_def response_prompt_def)
  have subj: "subject (email classified_meeting) = ''Meeting Request: Q4 Strategy Discussion''"
    by (simp add: classified_meeting_def initial_state_def meeting_email_def)
  from draft_failure_falls_back[OF h1 h2 disjI1[OF h3], of "[]"] h1 h2 h3 subj show ?thesis
    by auto
qed

text \<open>
  Claim C9. When the classify stage and the drafting stage both fail, the state after the
  classify stage carries the classification failure, and the final state carries the drafting
  failure alone: the error field is \<open>Response drafting failed: \<close> followed by the text of
  the second exception, the first message is gone.
\<close>

theorem error_keeps_last_failure:
  assumes "llm_invoke env (classification_prompt e (get_sender_context (sender e))) = Inl msg1 \<or>
     (\<exists>r. llm_invoke env (classification_prompt e (get_sender_context (sender e))) = Inr r \<and>
          classification_parse env r = Inl msg1)"
    and "llm_invoke env (response_prompt e default_classification (get_sender_context (sender e))
            (availability_text env None)) = Inl msg2 \<or>
     (\<exists>r. llm_invoke env (response_prompt e default_classification
              (get_sender_context (sender e)) (availability_text env None)) = Inr r \<and>
          response_parse env r = Inl msg2)"
  shows "\<exists>s1 s2 s. enrich_sender_context (initial_state e) = Inr s1 \<and>
           classify_email env s1 = Inr s2 \<and>
           error s2 = Some (''Classification failed: '' @ msg1) \<and>
           process_email env e = Inr s \<and>
           error s = Some (''Response drafting failed: '' @ msg2)"
proof -
  let ?ctx = "get_sender_context (sender e)"
  from assms(1) have fail1: "invoke_classification env (classification_prompt e ?ctx) = Inl msg1"
    by (simp add: invoke_classification_Inl)
  from assms(2) have fail2: "invoke_response env (response_prompt e default_classification ?ctx
            (availability_text env None)) = Inl msg2"
    by (simp add: invoke_response_Inl)
  obtain s1 where s1: "enrich_sender_context (initial_state e) = Inr s1"
    by (simp add: enrich_eq)
  from initial_fields[OF s1] have f1: "email s1 = e" "sender_context s1 = Some ?ctx"
    "calendar_availability s1 = None" by simp_all
  define s2 where "s2 = s1\<lparr>error := Some (''Classification failed: '' @ msg1),
                           classification := Some default_classification\<rparr>"
  from classify_eq[OF f1(2), of env] fail1 f1(1)
  have s2: "classify_email env s1 = Inr s2" by (simp add: s2_def)
  have c2: "classification s2 = Some default_classification" by (simp add: s2_def)
  have e2: "error s2 = Some (''Classification failed: '' @ msg1)" by (simp add: s2_def)
  have f2: "sender_context s2 = Some ?ctx" "email s2 = e" "calendar_availability s2 = None"
    using f1 by (simp_all add: s2_def)
  have s3: "check_calendar_availability env s2 = Inr s2"
    using calendar_eq[OF c2, of env] by (simp add: default_classification_def)
  define s4 where "s4 = s2\<lparr>error := Some (''Response drafting failed: '' @ msg2),
                           response_draft := Some (default_draft e)\<rparr>"
  from draft_eq[OF c2 f2(1), of env] fail2 f2
  have s4: "draft_response env s2 = Inr s4" by (simp add: s4_def)
  have e4: "error s4 = Some (''Response drafting failed: '' @ msg2)" by (simp add: s4_def)
  from draft_keeps[OF s4] obtain d where d: "response_draft s4 = Some d" by blast
  from review_eq[OF d] obtain s5 where s5: "human_review s4 = Inr s5" by simp
  obtain s6 where s6: "send_email s5 = Inr s6" by (simp add: send_email_def)
  have "invoke env (initial_state e) =
      Inr (s6, [N_enrich_sender, N_classify_email, N_check_calendar, N_draft_response,
                N_human_review, N_send_email])"
    using run_to_classify[OF s1 s2 c2]
      run_respond[OF c2, of env "[N_enrich_sender, N_classify_email]"] s3 s4 s5 s6
    by (simp add: default_classification_def)
  then have p: "process_email env e = Inr s6" by (simp add: process_email_def)
  from review_keeps[OF s5] send_keeps[OF s6] e4
  have "error s6 = Some (''Response drafting failed: '' @ msg2)" by simp
  with s1 s2 e2 p show ?thesis by blast
qed

theorem error_keeps_last_failure_witness:
  "llm_invoke failing_collaborators
     (classification_prompt test_email (get_sender_context (sender test_email)))
     = Inl ''Connection error.'' \<and>
   llm_invoke failing_collaborators
     (response_prompt test_email default_classification (get_sender_context (sender test_email))
        (availability_text failing_collaborators None))
     = Inl ''Request timed out.'' \<and>
   (\<exists>s. process_email failing_collaborators test_email = Inr s \<and>
        error s = Some ''Response drafting failed: Request timed out.'')"
proof -
  have h1: "llm_invoke failing_collaborators
     (classification_prompt test_email (get_sender_context (sender test_email)))
     = Inl ''Connection error.''"
    by (simp add: failing_collaborators_def scripted_def classification_prompt_def)
  have h2: "llm_invoke failing_collaborators
     (response_prompt test_email default_classification (get_sender_context (sender test_email))
        (availability_text failing_collaborators None))
     = Inl ''Request timed out.''"
    by (simp add: failing_collaborators_def scripted_def response_prompt_def)
  from error_keeps_last_failure[OF disjI1[OF h1] disjI1[OF h2]] h1 h2 show ?thesis
    by auto
qed

section \<open>Meeting requests and the draft\<close>

text \<open>
  Claim C7 as stated fails: nothing in the program sets \<open>includes_meeting_times\<close>. For the
  meeting request of src/main.py, classified as a meeting request, the final draft has
  \<open>includes_meeting_times = False\<close> both when the drafting stage falls back after a model
  failure and when the model's own draft leaves the flag at its default.
\<close>

theorem meeting_draft_without_times:
  "\<not> isl (process_email half_failing_collaborators meeting_email) \<and>
   map_option intent (classification (projr (process_email half_failing_collaborators meeting_email)))
     = Some MEETING_REQUEST \<and>
   map_option includes_meeting_times
     (response_draft (projr (process_email half_failing_collaborators meeting_email))) = Some False \<and>
   \<not> isl (process_email plain_reply_collaborators meeting_email) \<and>
   map_option intent (classification (projr (process_email plain_reply_collaborators meeting_email)))
     = Some MEETING_REQUEST \<and>
   map_option includes_meeting_times
     (response_draft (projr (process_email plain_reply_collaborators meeting_email))) = Some False"
  by code_simp

text \<open>
  Claim C7, as amended. For every run that ends with a draft and whose classification is a
  meeting request, the final draft is either the draft parsed from the model's output, with
  whatever \<open>includes_meeting_times\<close> it carries, or, when the model call or the parse of
  the drafting stage failed, the fallback draft, whose \<open>includes_meeting_times\<close> is false.
\<close>

theorem meeting_draft_flag_follows_model:
  assumes "process_email env e = Inr s"
    and "classification s = Some c"
    and "intent c = MEETING_REQUEST"
    and "response_draft s = Some d"
  shows "(\<exists>parsed. invoke_response env
                     (response_prompt e c (get_sender_context (sender e))
                        (availability_text env (calendar_availability s))) = Inr parsed \<and>
                   d = parsed) \<or>
         (\<exists>m. invoke_response env
                     (response_prompt e c (get_sender_context (sender e))
                        (availability_text env (calendar_availability s))) = Inl m \<and>
              d = default_draft e \<and> \<not> includes_meeting_times d)"
proof -
  let ?ctx = "get_sender_context (sender e)"
  from assms(1) obtain v where inv: "invoke env (initial_state e) = Inr (s, v)"
    by (auto simp: process_email_Inr)
  from invoke_outcome[OF inv] obtain s1 s2 c' where
    st: "enrich_sender_context (initial_state e) = Inr s1" "classify_email env s1 = Inr s2"
      "classification s2 = Some c'"
    and alt: "s = s2 \<or>
         (\<exists>s3 s4 s5. check_calendar_availability env s2 = Inr s3 \<and>
            draft_response env s3 = Inr s4 \<and> human_review s4 = Inr s5 \<and>
            send_email s5 = Inr s)"
    by blast
  from initial_fields[OF st(1)] classify_keeps[OF st(2)]
  have f2: "response_draft s2 = None" "email s2 = e" "sender_context s2 = Some ?ctx"
    by simp_all
  with alt assms(4) obtain s3 s4 s5 where p: "check_calendar_availability env s2 = Inr s3"
      "draft_response env s3 = Inr s4" "human_review s4 = Inr s5" "send_email s5 = Inr s"
    by auto
  from calendar_keeps[OF p(1)] f2 st(3)
  have f3: "email s3 = e" "sender_context s3 = Some ?ctx" "classification s3 = Some c'"
    by simp_all
  from draft_keeps[OF p(2)] review_keeps[OF p(3)] send_keeps[OF p(4)] f3
  have k: "classification s = Some c'" "calendar_availability s = calendar_availability s3"
    "response_draft s = response_draft s4"
    by simp_all
  with assms(2) have cc: "c' = c" by simp
  let ?P = "response_prompt e c ?ctx (availability_text env (calendar_availability s))"
  show ?thesis
  proof (cases "invoke_response env ?P")
    case (Inr parsed)
    with draft_eq[OF f3(3) f3(2), of env] p(2) f3(1) cc k assms(4) show ?thesis by auto
  next
    case (Inl m)
    with draft_eq[OF f3(3) f3(2), of env] p(2) f3(1) cc k assms(4) show ?thesis
      by (auto simp: default_draft_def ResponseDraft_init_def)
  qed
qed

theorem meeting_draft_flag_follows_model_witness:
  "process_email half_failing_collaborators meeting_email
     = Inr (projr (process_email half_failing_collaborators meeting_email)) \<and>
   classification (projr (process_email half_failing_collaborators meeting_email))
     = Some meeting_classification \<and>
   intent meeting_classification = MEETING_REQUEST \<and>
   response_draft (projr (process_email half_failing_collaborators meeting_email))
     = Some (default_draft meeting_email) \<and>
   \<not> includes_meeting_times (default_draft meeting_email)"
proof -
  let ?s = "projr (process_email half_failing_collaborators meeting_email)"
  have "\<not> isl (process_email half_failing_collaborators meeting_email)"
    by code_simp
  then have h1: "process_email half_failing_collaborators meeting_email = Inr ?s"
    by simp
  have h2: "classification ?s = Some meeting_classification"
    by code_simp
  have h3: "intent meeting_classification = MEETING_REQUEST"
    by (simp add: meeting_classification_def)
  have h4: "response_draft ?s = Some (default_draft meeting_email)"
    by code_simp
  have "invoke_response half_failing_collaborators
          (response_prompt meeting_email meeting_classification
             (get_sender_context (sender meeting_email))
             (availability_text half_failing_collaborators (calendar_availability ?s)))
        = Inl ''Request timed out.''"
    by (simp add: invoke_response_def half_failing_collaborators_def scripted_def
        response_prompt_def)
  with meeting_draft_flag_follows_model[OF h1 h2 h3 h4] have "\<not> includes_meeting_times (default_draft meeting_email)"
    by auto
  with h1 h2 h3 h4 show ?thesis by blast
qed

section \<open>Repeated runs\<close>

lemma run_node_same:
  assumes "llm_invoke env2 = llm_invoke env1"
    and "classification_parse env2 = classification_parse env1"
    and "response_parse env2 = response_parse env1"
    and "strftime env2 = strftime env1"
    and "get_availability (clock env2) 7 = get_availability (clock env1) 7"
  shows "run_node env2 n state = run_node env1 n state"
proof (cases n)
  case N_classify_email
  have "invoke_classification env2 = invoke_classification env1"
    by (rule ext) (simp add: invoke_classification_def assms split: sum.splits)
  then show ?thesis using N_classify_email
    by (simp add: classify_email_def Let_def split: option.splits)
next
  case N_check_calendar
  then show ?thesis using assms(5)
    by (simp add: check_calendar_availability_def split: option.splits)
next
  case N_draft_response
  have "invoke_response env2 = invoke_response env1"
    by (rule ext) (simp add: invoke_response_def assms split: sum.splits)
  moreover have "slot_line env2 = slot_line env1"
    by (rule ext) (simp add: slot_line_def assms)
  then have "availability_text env2 = availability_text env1"
    by (intro ext) (simp add: availability_text_def split: option.splits list.splits)
  ultimately show ?thesis using N_draft_response
    by (simp add: draft_response_def Let_def split: option.splits)
qed simp_all

lemma run_graph_same:
  "(\<forall>n state. run_node env2 n state = run_node env1 n state) \<Longrightarrow>
   run_graph env2 n state v = run_graph env1 n state v"
proof (induction env1 n state v rule: run_graph.induct)
  case (1 env1 n state visited)
  then have same: "run_node env2 n state = run_node env1 n state" by simp
  have unfold2: "run_graph env2 n state visited =
     (case run_node env1 n state of
        Inl x \<Rightarrow> Inl x
      | Inr state' \<Rightarrow>
          (case next_node n state' of
             Inl x \<Rightarrow> Inl x
           | Inr None \<Rightarrow> Inr (state', visited @ [n])
           | Inr (Some n') \<Rightarrow> run_graph env2 n' state' (visited @ [n])))"
    by (subst run_graph.simps) (simp add: same)
  have unfold1: "run_graph env1 n state visited =
     (case run_node env1 n state of
        Inl x \<Rightarrow> Inl x
      | Inr state' \<Rightarrow>
          (case next_node n state' of
             Inl x \<Rightarrow> Inl x
           | Inr None \<Rightarrow> Inr (state', visited @ [n])
           | Inr (Some n') \<Rightarrow> run_graph env1 n' state' (visited @ [n])))"
    by (subst run_graph.simps) simp
  show ?case
  proof (cases "run_node env1 n state")
    case (Inl x)
    then show ?thesis by (simp add: unfold1 unfold2)
  next
    case (Inr s')
    show ?thesis
    proof (cases "next_node n s'")
      case (Inl x)
      with Inr show ?thesis by (simp add: unfold1 unfold2)
    next
      case nx: (Inr dest)
      show ?thesis
      proof (cases dest)
        case None
        with Inr nx show ?thesis by (simp add: unfold1 unfold2)
      next
        case (Some n')
        from "1.IH"[OF Inr nx Some] "1.prems"
        have "run_graph env2 n' s' (visited @ [n]) = run_graph env1 n' s' (visited @ [n])"
          by simp
        with Inr nx Some show ?thesis by (simp add: unfold1 unfold2)
      qed
    qed
  qed
qed

text \<open>
  Claim C8. Two runs on the same email, with the same model, the same parsers, the same
  \<open>strftime\<close> and clocks for which the availability provider answers the same (the clock
  readings themselves may differ), return the same result; in particular the same
  classification and the same draft.
\<close>

theorem process_email_deterministic:
  assumes "llm_invoke env2 = llm_invoke env1"
    and "classification_parse env2 = classification_parse env1"
    and "response_parse env2 = response_parse env1"
    and "strftime env2 = strftime env1"
    and "get_availability (clock env2) 7 = get_availability (clock env1) 7"
  shows "process_email env2 e = process_email env1 e"
proof -
  have "run_graph env2 N_enrich_sender (initial_state e) []
      = run_graph env1 N_enrich_sender (initial_state e) []"
    by (rule run_graph_same) (simp add: run_node_same[OF assms])
  then show ?thesis by (simp add: process_email_def invoke_def)
qed

theorem process_email_deterministic_witness:
  "clock morning_collaborators \<noteq> clock meeting_collaborators \<and>
   get_availability (clock morning_collaborators) 7
     = get_availability (clock meeting_collaborators) 7 \<and>
   process_email morning_collaborators meeting_email
     = process_email meeting_collaborators meeting_email"
proof -
  have h1: "llm_invoke morning_collaborators = llm_invoke meeting_collaborators"
    by (simp add: morning_collaborators_def meeting_collaborators_def scripted_def)
  have h2: "classification_parse morning_collaborators = classification_parse meeting_collaborators"
    by (simp add: morning_collaborators_def meeting_collaborators_def scripted_def)
  have h3: "response_parse morning_collaborators = response_parse meeting_collaborators"
    by (simp add: morning_collaborators_def meeting_collaborators_def scripted_def)
  have h4: "strftime morning_collaborators = strftime meeting_collaborators"
    by (simp add: morning_collaborators_def meeting_collaborators_def scripted_def)
  have h5: "get_availability (clock morning_collaborators) 7
     = get_availability (clock meeting_collaborators) 7"
    by code_simp
  have h6: "clock morning_collaborators \<noteq> clock meeting_collaborators"
    by (simp add: morning_collaborators_def meeting_collaborators_def scripted_def
        sample_morning_def sample_now_def)
  from process_email_deterministic[OF h1 h2 h3 h4 h5] h5 h6 show ?thesis by simp
qed

end
